theory Spec2Isabelle
  imports Complex_Main
begin

section \<open>Python strings\<close>

text \<open>
  A Python \<open>str\<close> is a sequence of Unicode code points, so it is modelled as a list of
  integers (the values of \<open>ord\<close>); \<open>u\<close> turns an ASCII literal into such a list. The
  white-space table is the one of \<open>str.strip\<close>, \<open>str.isspace\<close> and the pattern \<open>\s\<close>.
  Digits, letters, the case mappings and the matching under \<open>re.I\<close> are those of the
  ASCII range: a code point above 127 is carried through unchanged and belongs to no
  class but white space.
\<close>

type_synonym ustr = "int list"

definition u :: "string \<Rightarrow> ustr" where
  "u s = map of_char s"

definition is_space :: "int \<Rightarrow> bool" where
  "is_space c \<longleftrightarrow> (9 \<le> c \<and> c \<le> 13) \<or> (28 \<le> c \<and> c \<le> 32) \<or> c = 133 \<or> c = 160
     \<or> c = 5760 \<or> (8192 \<le> c \<and> c \<le> 8202) \<or> c = 8232 \<or> c = 8233 \<or> c = 8239
     \<or> c = 8287 \<or> c = 12288"

definition is_digit :: "int \<Rightarrow> bool" where
  "is_digit c \<longleftrightarrow> 48 \<le> c \<and> c \<le> 57"

definition is_upper :: "int \<Rightarrow> bool" where
  "is_upper c \<longleftrightarrow> 65 \<le> c \<and> c \<le> 90"

definition is_lower :: "int \<Rightarrow> bool" where
  "is_lower c \<longleftrightarrow> 97 \<le> c \<and> c \<le> 122"

definition is_alpha :: "int \<Rightarrow> bool" where
  "is_alpha c \<longleftrightarrow> is_upper c \<or> is_lower c"

text \<open>The class \<open>\w\<close>: letters, digits and the underscore.\<close>

definition is_word :: "int \<Rightarrow> bool" where
  "is_word c \<longleftrightarrow> is_alpha c \<or> is_digit c \<or> c = 95"

definition lower_char :: "int \<Rightarrow> int" where
  "lower_char c = (if is_upper c then c + 32 else c)"

definition upper_char :: "int \<Rightarrow> int" where
  "upper_char c = (if is_lower c then c - 32 else c)"

definition lower :: "ustr \<Rightarrow> ustr" where
  "lower s = map lower_char s"

definition upper :: "ustr \<Rightarrow> ustr" where
  "upper s = map upper_char s"

text \<open>\<open>str.isalpha\<close>: every character is a letter and there is at least one.\<close>

definition isalpha :: "ustr \<Rightarrow> bool" where
  "isalpha s \<longleftrightarrow> s \<noteq> [] \<and> list_all is_alpha s"

definition lstrip :: "ustr \<Rightarrow> ustr" where
  "lstrip s = dropWhile is_space s"

definition rstrip :: "ustr \<Rightarrow> ustr" where
  "rstrip s = rev (dropWhile is_space (rev s))"

definition strip :: "ustr \<Rightarrow> ustr" where
  "strip s = rstrip (lstrip s)"

text \<open>\<open>s.lstrip(chars)\<close> and \<open>s.rstrip(chars)\<close> with an explicit character set.\<close>

definition lstrip_chars :: "ustr \<Rightarrow> ustr \<Rightarrow> ustr" where
  "lstrip_chars cs s = dropWhile (\<lambda>c. c \<in> set cs) s"

definition rstrip_chars :: "ustr \<Rightarrow> ustr \<Rightarrow> ustr" where
  "rstrip_chars cs s = rev (dropWhile (\<lambda>c. c \<in> set cs) (rev s))"

fun startswith :: "ustr \<Rightarrow> ustr \<Rightarrow> bool" where
  "startswith [] s = True"
| "startswith (p # ps) [] = False"
| "startswith (p # ps) (c # cs) = (p = c \<and> startswith ps cs)"

definition endswith :: "ustr \<Rightarrow> ustr \<Rightarrow> bool" where
  "endswith p s = startswith (rev p) (rev s)"

text \<open>\<open>sep.join(parts)\<close>.\<close>

fun join :: "ustr \<Rightarrow> ustr list \<Rightarrow> ustr" where
  "join sep [] = []"
| "join sep [p] = p"
| "join sep (p # q # ps) = p @ sep @ join sep (q # ps)"

text \<open>\<open>s.replace(old, new)\<close> for a one-character \<open>old\<close>.\<close>

definition replace_char :: "int \<Rightarrow> ustr \<Rightarrow> ustr \<Rightarrow> ustr" where
  "replace_char old new s = concat (map (\<lambda>c. if c = old then new else [c]) s)"

datatype py_error = IndexError | ValueError | TypeError

section \<open>Regular expressions\<close>

text \<open>
  The patterns of the source are alternatives of sequences of items: one character of a
  class, an optional one, a greedy repetition, the assertions \<open>\b\<close>, \<open>^\<close> and \<open>$\<close>,
  and the boundaries of capture groups. \<open>re_match\<close> is the backtracking matcher at one
  position: it gets the character before the position (\<open>None\<close> at the start of the
  string) and the text from the position on, and returns the text after the match with
  the texts that remained at each group boundary.
\<close>

datatype item =
    Cls "int \<Rightarrow> bool"
  | Opt "int \<Rightarrow> bool"
  | Star "int \<Rightarrow> bool"
  | Bnd
  | Bol
  | Eol
  | Mark

definition word_before :: "int option \<Rightarrow> bool" where
  "word_before prev = (case prev of None \<Rightarrow> False | Some c \<Rightarrow> is_word c)"

definition word_after :: "ustr \<Rightarrow> bool" where
  "word_after s = (case s of [] \<Rightarrow> False | c # cs \<Rightarrow> is_word c)"

fun re_match :: "item list \<Rightarrow> int option \<Rightarrow> ustr \<Rightarrow> ustr list \<Rightarrow> (ustr \<times> ustr list) option" where
  "re_match [] prev s ms = Some (s, ms)"
| "re_match (Cls p # r) prev [] ms = None"
| "re_match (Cls p # r) prev (c # cs) ms = (if p c then re_match r (Some c) cs ms else None)"
| "re_match (Opt p # r) prev [] ms = re_match r prev [] ms"
| "re_match (Opt p # r) prev (c # cs) ms =
     (if p c then
        (case re_match r (Some c) cs ms of
           Some res \<Rightarrow> Some res
         | None \<Rightarrow> re_match r prev (c # cs) ms)
      else re_match r prev (c # cs) ms)"
| "re_match (Star p # r) prev [] ms = re_match r prev [] ms"
| "re_match (Star p # r) prev (c # cs) ms =
     (if p c then
        (case re_match (Star p # r) (Some c) cs ms of
           Some res \<Rightarrow> Some res
         | None \<Rightarrow> re_match r prev (c # cs) ms)
      else re_match r prev (c # cs) ms)"
| "re_match (Bnd # r) prev s ms =
     (if word_before prev \<noteq> word_after s then re_match r prev s ms else None)"
| "re_match (Bol # r) prev s ms = (if prev = None then re_match r prev s ms else None)"
| "re_match (Eol # r) prev s ms = (if s = [] \<or> s = [10] then re_match r prev s ms else None)"
| "re_match (Mark # r) prev s ms = re_match r prev s (ms @ [s])"

text \<open>The alternatives of a pattern are tried in their order.\<close>

fun re_match_alts :: "item list list \<Rightarrow> int option \<Rightarrow> ustr \<Rightarrow> (ustr \<times> ustr list) option" where
  "re_match_alts [] prev s = None"
| "re_match_alts (a # as) prev s =
     (case re_match a prev s [] of
        Some res \<Rightarrow> Some res
      | None \<Rightarrow> re_match_alts as prev s)"

text \<open>The length of the match at a position, if there is one.\<close>

definition match_len :: "item list list \<Rightarrow> int option \<Rightarrow> ustr \<Rightarrow> nat option" where
  "match_len pat prev s =
     (case re_match_alts pat prev s of
        None \<Rightarrow> None
      | Some (rest, ms) \<Rightarrow> Some (length s - length rest))"

text \<open>
  The scanning functions go through the text from left to right; their counter is the
  number of characters still to skip inside the match found last, so that matches do not
  overlap. No pattern of the source matches the empty string; a match of length 0 is
  passed over.
\<close>

text \<open>\<open>pattern.search(s)\<close> as a truth value.\<close>

fun re_search_from :: "item list list \<Rightarrow> int option \<Rightarrow> ustr \<Rightarrow> bool" where
  "re_search_from pat prev [] = (re_match_alts pat prev [] \<noteq> None)"
| "re_search_from pat prev (c # cs) =
     (re_match_alts pat prev (c # cs) \<noteq> None \<or> re_search_from pat (Some c) cs)"

definition re_search :: "item list list \<Rightarrow> ustr \<Rightarrow> bool" where
  "re_search pat s = re_search_from pat None s"

text \<open>\<open>re.sub(pattern, "", s)\<close>.\<close>

fun re_sub_from :: "item list list \<Rightarrow> int option \<Rightarrow> nat \<Rightarrow> ustr \<Rightarrow> ustr" where
  "re_sub_from pat prev k [] = []"
| "re_sub_from pat prev (Suc k) (c # cs) = re_sub_from pat (Some c) k cs"
| "re_sub_from pat prev 0 (c # cs) =
     (case match_len pat prev (c # cs) of
        Some (Suc n) \<Rightarrow> re_sub_from pat (Some c) n cs
      | _ \<Rightarrow> c # re_sub_from pat (Some c) 0 cs)"

definition re_sub_empty :: "item list list \<Rightarrow> ustr \<Rightarrow> ustr" where
  "re_sub_empty pat s = re_sub_from pat None 0 s"

text \<open>\<open>re.findall(pattern, s)\<close> for a pattern without groups.\<close>

fun re_findall_from :: "item list list \<Rightarrow> int option \<Rightarrow> nat \<Rightarrow> ustr \<Rightarrow> ustr list" where
  "re_findall_from pat prev k [] = []"
| "re_findall_from pat prev (Suc k) (c # cs) = re_findall_from pat (Some c) k cs"
| "re_findall_from pat prev 0 (c # cs) =
     (case match_len pat prev (c # cs) of
        Some (Suc n) \<Rightarrow> take (Suc n) (c # cs) # re_findall_from pat (Some c) n cs
      | _ \<Rightarrow> re_findall_from pat (Some c) 0 cs)"

definition re_findall :: "item list list \<Rightarrow> ustr \<Rightarrow> ustr list" where
  "re_findall pat s = re_findall_from pat None 0 s"

text \<open>\<open>re.split(pattern, s)\<close> for a pattern without groups; \<open>cur\<close> is the field read so far.\<close>

fun re_split_from :: "item list list \<Rightarrow> int option \<Rightarrow> nat \<Rightarrow> ustr \<Rightarrow> ustr \<Rightarrow> ustr list" where
  "re_split_from pat prev k cur [] = [cur]"
| "re_split_from pat prev (Suc k) cur (c # cs) = re_split_from pat (Some c) k cur cs"
| "re_split_from pat prev 0 cur (c # cs) =
     (case match_len pat prev (c # cs) of
        Some (Suc n) \<Rightarrow> cur # re_split_from pat (Some c) n [] cs
      | _ \<Rightarrow> re_split_from pat (Some c) 0 (cur @ [c]) cs)"

definition re_split :: "item list list \<Rightarrow> ustr \<Rightarrow> ustr list" where
  "re_split pat s = re_split_from pat None 0 [] s"

text \<open>A literal, and a literal under \<open>re.I\<close> (given in lower case).\<close>

definition lit :: "ustr \<Rightarrow> item list" where
  "lit s = map (\<lambda>c. Cls (\<lambda>x. x = c)) s"

definition lit_i :: "ustr \<Rightarrow> item list" where
  "lit_i s = map (\<lambda>c. Cls (\<lambda>x. lower_char x = c)) s"

definition one_of :: "ustr \<Rightarrow> int \<Rightarrow> bool" where
  "one_of cs c \<longleftrightarrow> c \<in> set cs"

section \<open>location\_cleaner.py\<close>

definition COUNTRY_MAP :: "(ustr \<times> ustr) list" where
  "COUNTRY_MAP =
    [(u ''us'', u ''US''), (u ''usa'', u ''US''), (u ''united states'', u ''US''),
     (u ''united states of america'', u ''US''), (u ''uk'', u ''UK''), (u ''gb'', u ''UK''),
     (u ''united kingdom'', u ''UK''), (u ''england'', u ''UK''), (u ''canada'', u ''CA''),
     (u ''ca'', u ''CA''), (u ''australia'', u ''AU''), (u ''au'', u ''AU''),
     (u ''india'', u ''IN''), (u ''in'', u ''IN'')]"

definition US_STATE_MAP :: "(ustr \<times> ustr) list" where
  "US_STATE_MAP =
    [(u ''alabama'', u ''AL''), (u ''alaska'', u ''AK''), (u ''arizona'', u ''AZ''),
     (u ''arkansas'', u ''AR''), (u ''california'', u ''CA''), (u ''colorado'', u ''CO''),
     (u ''connecticut'', u ''CT''), (u ''delaware'', u ''DE''), (u ''florida'', u ''FL''),
     (u ''georgia'', u ''GA''), (u ''hawaii'', u ''HI''), (u ''idaho'', u ''ID''),
     (u ''illinois'', u ''IL''), (u ''indiana'', u ''IN''), (u ''iowa'', u ''IA''),
     (u ''kansas'', u ''KS''), (u ''kentucky'', u ''KY''), (u ''louisiana'', u ''LA''),
     (u ''maine'', u ''ME''), (u ''maryland'', u ''MD''), (u ''massachusetts'', u ''MA''),
     (u ''michigan'', u ''MI''), (u ''minnesota'', u ''MN''), (u ''mississippi'', u ''MS''),
     (u ''missouri'', u ''MO''), (u ''montana'', u ''MT''), (u ''nebraska'', u ''NE''),
     (u ''nevada'', u ''NV''), (u ''new hampshire'', u ''NH''), (u ''new jersey'', u ''NJ''),
     (u ''new mexico'', u ''NM''), (u ''new york'', u ''NY''), (u ''north carolina'', u ''NC''),
     (u ''north dakota'', u ''ND''), (u ''ohio'', u ''OH''), (u ''oklahoma'', u ''OK''),
     (u ''oregon'', u ''OR''), (u ''pennsylvania'', u ''PA''), (u ''rhode island'', u ''RI''),
     (u ''south carolina'', u ''SC''), (u ''south dakota'', u ''SD''), (u ''tennessee'', u ''TN''),
     (u ''texas'', u ''TX''), (u ''utah'', u ''UT''), (u ''vermont'', u ''VT''),
     (u ''virginia'', u ''VA''), (u ''washington'', u ''WA''), (u ''west virginia'', u ''WV''),
     (u ''wisconsin'', u ''WI''), (u ''wyoming'', u ''WY''),
     (u ''district of columbia'', u ''DC''), (u ''washington dc'', u ''DC''), (u ''dc'', u ''DC'')]"

definition state_abbrev_set :: "ustr list" where
  "state_abbrev_set = map snd US_STATE_MAP"

text \<open>
  \<open>_normalize_country\<close>. The pattern \<open>[^\w\s]\<close> is a single character class, so its
  substitution by the empty string keeps the word and white-space characters.
\<close>

definition normalize_country :: "ustr \<Rightarrow> ustr option" where
  "normalize_country token =
    (let t = lower (strip token);
         t = strip (filter (\<lambda>c. is_word c \<or> is_space c) t)
     in if t = [] then None
        else case map_of COUNTRY_MAP t of
          Some code \<Rightarrow> Some code
        | None \<Rightarrow>
            if length t = 2 \<and> isalpha t then Some (upper t)
            else if strip token \<noteq> [] then Some (upper (strip token)) else None)"

definition normalize_state :: "ustr \<Rightarrow> ustr option" where
  "normalize_state token =
    (let t = strip token
     in if t = [] then None
        else if upper t \<in> set state_abbrev_set then Some (upper t)
        else map_of US_STATE_MAP (lower t))"

record location =
  city :: "ustr option"
  state :: "ustr option"
  country :: "ustr option"
  is_remote :: bool
  raw :: "ustr option"

text \<open>Line 165: the tokens between commas, slashes and pipes, stripped, blank ones dropped.\<close>

definition is_sep :: "int \<Rightarrow> bool" where
  "is_sep c \<longleftrightarrow> c = 44 \<or> c = 47 \<or> c = 124"

text \<open>\<open>[,/|]+\<close>\<close>

definition sep_pat :: "item list list" where
  "sep_pat = [[Cls is_sep, Star is_sep]]"

definition loc_tokens :: "ustr \<Rightarrow> ustr list" where
  "loc_tokens s = map strip (filter (\<lambda>p. p \<noteq> [] \<and> strip p \<noteq> []) (re_split sep_pat s))"

text \<open>Line 171: the test on the lower-cased tokens.\<close>

definition remote_token :: "ustr \<Rightarrow> bool" where
  "remote_token p \<longleftrightarrow>
     p = u ''remote'' \<or> startswith (u ''remote '') p \<or> endswith (u '' remote'') p"

text \<open>
  Lines 183 to 196, on a non-empty token list: the last token as the country. The
  result is the country field, the remaining tokens and their count \<open>n\<close>.
\<close>

definition take_country :: "ustr list \<Rightarrow> int \<Rightarrow> ustr option \<times> ustr list \<times> int" where
  "take_country parts n =
    (let last_tok = last parts;
         cand = normalize_country last_tok
     in if cand \<noteq> None \<and>
           (lower (strip last_tok) \<in> dom (map_of COUNTRY_MAP)
            \<or> (length (strip last_tok) = 2 \<and> isalpha (strip last_tok))
            \<or> cand \<noteq> Some (upper (strip last_tok)))
        then (cand, butlast parts, n - 1)
        else
          let last_clean = lower (strip last_tok)
          in if last_clean \<in> dom (map_of COUNTRY_MAP)
                \<or> (length last_clean = 2 \<and> isalpha last_clean)
             then (normalize_country last_tok, butlast parts, n - 1)
             else (None, parts, n))"

text \<open>Lines 199 to 205: the new last token as the state.\<close>

definition take_state :: "ustr list \<Rightarrow> int \<Rightarrow> py_error + (ustr option \<times> ustr list \<times> int)" where
  "take_state parts n =
    (if n \<ge> 1 then
       (if parts = [] then Inl IndexError
        else case normalize_state (last parts) of
          Some abbrev \<Rightarrow>
            if abbrev \<noteq> [] then Inr (Some abbrev, butlast parts, n - 1)
            else Inr (None, parts, n)
        | None \<Rightarrow> Inr (None, parts, n))
     else Inr (None, parts, n))"

definition country_words :: "ustr list" where
  "country_words = [u ''US'', u ''USA'', u ''UNITED STATES'', u ''UK'', u ''UNITED KINGDOM'']"

text \<open>A Python value used as a condition: \<open>None\<close> and the empty string are false.\<close>

definition truthy :: "ustr option \<Rightarrow> bool" where
  "truthy v \<longleftrightarrow> v \<noteq> None \<and> v \<noteq> Some []"

text \<open>
  Lines 199 to 215: the state from the new last token, the city from what remains, and
  the country from a city that is a country word.
\<close>

definition finish_location :: "location \<Rightarrow> ustr list \<Rightarrow> int \<Rightarrow> py_error + location" where
  "finish_location out1 parts1 n1 =
    (case take_state parts1 n1 of
       Inl e \<Rightarrow> Inl e
     | Inr (st, parts2, n2) \<Rightarrow>
         (let out2 = out1\<lparr>state := st\<rparr>;
              out3 = (if n2 \<ge> 1 then out2\<lparr>city := Some (strip (join (u '', '') parts2))\<rparr>
                      else out2);
              out4 = (if truthy (city out3)
                         \<and> upper (strip (the (city out3))) \<in> set country_words
                         \<and> \<not> truthy (country out3)
                      then out3\<lparr>country := normalize_country (the (city out3))\<rparr>
                      else out3)
          in Inr out4))"

text \<open>
  Lines 180 to 215, entered with the tokens left after the removal of ``remote''.
  \<open>parts[-1]\<close> raises \<open>IndexError\<close> on an empty list.
\<close>

definition resolve_tokens :: "location \<Rightarrow> ustr list \<Rightarrow> py_error + location" where
  "resolve_tokens out0 parts0 =
    (let n0 = int (length parts0)
     in if parts0 = [] then Inl IndexError
        else
          (let (ctry, parts1, n1) = take_country parts0 n0
           in finish_location (out0\<lparr>country := ctry\<rparr>) parts1 n1))"

text \<open>Lines 170 to 173: the tokens that stay, and whether a remote token was seen.\<close>

definition remote_seen :: "ustr list \<Rightarrow> bool" where
  "remote_seen parts = list_ex remote_token (map lower parts)"

definition drop_remote :: "ustr list \<Rightarrow> ustr list" where
  "drop_remote parts =
    (if remote_seen parts then filter (\<lambda>p. lower p \<noteq> u ''remote'') parts else parts)"

text \<open>
  \<open>parse_location\<close>. A cell is \<open>None\<close> when \<open>pd.isna\<close> holds of it and a string
  otherwise.
\<close>

definition parse_location :: "ustr option \<Rightarrow> py_error + location" where
  "parse_location cell =
    (let out = \<lparr>city = None, state = None, country = None, is_remote = False, raw = cell\<rparr>
     in if cell = None then Inr out
        else
          (let s = strip (the cell)
           in if s = [] then Inr out
              else
                (let parts = loc_tokens s
                 in if parts = [] then Inr out
                    else
                      (let out' = (if remote_seen parts then out\<lparr>is_remote := True\<rparr> else out)
                       in resolve_tokens out' (drop_remote parts)))))"

section \<open>Floating-point values\<close>

text \<open>
  A Python \<open>float\<close> that is not NaN is a finite value or one of the two infinities; NaN
  is \<open>None\<close> of \<open>pyfloat option\<close>. A finite value is kept as the exact rational:
  the rounding to 53 bits is not modelled. The overflow is: a result whose magnitude
  reaches \<open>dbl_limit\<close>, which is \<open>2^1024 - 2^970\<close> (the largest double plus half a
  unit in its last place), becomes an infinity, as in binary64 arithmetic with rounding to nearest.
\<close>

datatype pyfloat = Fin rat | PInf | NInf

definition dbl_limit :: rat where
  "dbl_limit =
    179769313486231580793728971405303415079934132710037826936173778980444968292764750946649017977587207096330286416692887910946555547851940402630657488671505820681908902000708383676273854845817711531764475730270069855571366959622842914819860834936475292719074168444365510704342711559699508093042880177904174497792"

definition to_double :: "rat \<Rightarrow> pyfloat" where
  "to_double q = (if dbl_limit \<le> q then PInf else if q \<le> - dbl_limit then NInf else Fin q)"

text \<open>\<open>a + b\<close>; the sum of the two infinities is NaN.\<close>

fun fadd :: "pyfloat \<Rightarrow> pyfloat \<Rightarrow> pyfloat option" where
  "fadd (Fin a) (Fin b) = Some (to_double (a + b))"
| "fadd PInf NInf = None"
| "fadd NInf PInf = None"
| "fadd PInf b = Some PInf"
| "fadd NInf b = Some NInf"
| "fadd a PInf = Some PInf"
| "fadd a NInf = Some NInf"

text \<open>\<open>a * c\<close> and \<open>a / c\<close> for a positive finite constant.\<close>

fun fscale :: "rat \<Rightarrow> pyfloat \<Rightarrow> pyfloat" where
  "fscale c (Fin a) = to_double (a * c)"
| "fscale c PInf = PInf"
| "fscale c NInf = NInf"

fun fless :: "pyfloat \<Rightarrow> pyfloat \<Rightarrow> bool" where
  "fless (Fin a) (Fin b) = (a < b)"
| "fless (Fin a) PInf = True"
| "fless NInf (Fin b) = True"
| "fless NInf PInf = True"
| "fless a b = False"

definition fle :: "pyfloat \<Rightarrow> pyfloat \<Rightarrow> bool" where
  "fle a b \<longleftrightarrow> fless a b \<or> a = b"

text \<open>
  The built-ins \<open>min\<close> and \<open>max\<close> on a non-empty list: the first element is replaced
  whenever a later one is smaller (larger). The source calls them on lists of two or more
  values only.
\<close>

definition py_min :: "pyfloat list \<Rightarrow> pyfloat" where
  "py_min xs = foldl (\<lambda>m x. if fless x m then x else m) (hd xs) (tl xs)"

definition py_max :: "pyfloat list \<Rightarrow> pyfloat" where
  "py_max xs = foldl (\<lambda>m x. if fless m x then x else m) (hd xs) (tl xs)"

text \<open>\<open>(mn + mx) / 2.0\<close>.\<close>

definition midpoint :: "pyfloat \<Rightarrow> pyfloat \<Rightarrow> pyfloat option" where
  "midpoint mn mx = map_option (fscale (1 / 2)) (fadd mn mx)"

definition digits_val :: "ustr \<Rightarrow> int" where
  "digits_val ds = foldl (\<lambda>acc c. 10 * acc + (c - 48)) 0 ds"

text \<open>
  \<open>float(s)\<close> on a string of signs, digits, dots and letters, which is all the callers
  build: an optional sign, then digits with at most one dot and at least one digit.
  \<open>None\<close> is the \<open>ValueError\<close>.
\<close>

definition py_float :: "ustr \<Rightarrow> pyfloat option" where
  "py_float s0 =
    (let s = strip s0;
         neg = (s \<noteq> [] \<and> hd s = 45);
         body = (if s \<noteq> [] \<and> (hd s = 45 \<or> hd s = 43) then tl s else s);
         ip = takeWhile is_digit body;
         r = dropWhile is_digit body;
         fr = (if r \<noteq> [] \<and> hd r = 46 then tl r else []);
         ok = (r = [] \<or> (hd r = 46 \<and> list_all is_digit (tl r)))
     in if ok \<and> (ip \<noteq> [] \<or> fr \<noteq> [])
        then Some (to_double ((if neg then - 1 else 1)
                     * (of_int (digits_val (ip @ fr)) / 10 ^ length fr)))
        else None)"

section \<open>salary\_parser\_int.py\<close>

definition normalize_whitespace :: "ustr \<Rightarrow> ustr" where
  "normalize_whitespace s = strip (replace_char 160 [32] s)"

definition na_words :: "ustr list" where
  "na_words = [u ''na'', u ''n/a'', u ''none'', u ''-'', [8212], u ''[]'']"

text \<open>
  \<open>(?i)\bper\s*year\b|\bper\s*annum\b|/yr\b|\byr\b|\bannually\b\<close>
\<close>

definition verbose_pat :: "item list list" where
  "verbose_pat =
    [Bnd # lit_i (u ''per'') @ Star is_space # lit_i (u ''year'') @ [Bnd],
     Bnd # lit_i (u ''per'') @ Star is_space # lit_i (u ''annum'') @ [Bnd],
     lit_i (u ''/yr'') @ [Bnd],
     Bnd # lit_i (u ''yr'') @ [Bnd],
     Bnd # lit_i (u ''annually'') @ [Bnd]]"

text \<open>The characters that the substitution of \<open>[^\d\.,kKmM\-\+\(\)]\<close> keeps.\<close>

definition keep_char :: "int \<Rightarrow> bool" where
  "keep_char c \<longleftrightarrow> is_digit c \<or> one_of (u ''.,kKmM-+()'') c"

text \<open>\<open>^\([\d\.,\skmKM]+\)$\<close>\<close>

definition paren_class :: "int \<Rightarrow> bool" where
  "paren_class c \<longleftrightarrow> is_digit c \<or> is_space c \<or> one_of (u ''.,kmKM'') c"

definition paren_pat :: "item list list" where
  "paren_pat = [[Bol, Cls (\<lambda>c. c = 40), Cls paren_class, Star paren_class, Cls (\<lambda>c. c = 41), Eol]]"

text \<open>\<open>^([+-]?[\d\.,]+)\s*([kKmM])$\<close>: the marks close the first and open the second group.\<close>

definition num_class :: "int \<Rightarrow> bool" where
  "num_class c \<longleftrightarrow> is_digit c \<or> one_of (u ''.,'') c"

definition suffix_pat :: "item list list" where
  "suffix_pat =
    [[Bol, Opt (one_of (u ''+-'')), Cls num_class, Star num_class, Mark, Star is_space, Mark,
      Cls (one_of (u ''kKmM'')), Eol]]"

text \<open>\<open>[+-]?\d+[.,]?\d*[kKmM]?\<close>\<close>

definition number_pat :: "item list list" where
  "number_pat =
    [[Opt (one_of (u ''+-'')), Cls is_digit, Star is_digit, Opt (one_of (u ''.,'')), Star is_digit,
      Opt (one_of (u ''kKmM''))]]"

text \<open>The substitution of \<open>[^\d\.\-]\<close> keeps digits, dots and minus signs.\<close>

definition plain_char :: "int \<Rightarrow> bool" where
  "plain_char c \<longleftrightarrow> is_digit c \<or> c = 46 \<or> c = 45"

text \<open>\<open>s.rfind(c)\<close>: the index of the last occurrence, or \<open>-1\<close>.\<close>

definition rfind :: "int \<Rightarrow> ustr \<Rightarrow> int" where
  "rfind c s = (if c \<in> set s then int (length s) - 1 - int (length (takeWhile (\<lambda>x. x \<noteq> c) (rev s)))
                else - 1)"

text \<open>Strategy C, lines 91 to 103.\<close>

definition strategy_c :: "ustr \<Rightarrow> pyfloat option" where
  "strategy_c s1 =
    (let tokens = re_findall number_pat s1
     in if tokens \<noteq> [] then
          (let t = hd tokens;
               t' = (if 44 \<in> set t \<and> 46 \<notin> set t then replace_char 44 [46] t else t);
               t'' = replace_char 44 [] t'
           in py_float t'')
        else None)"

text \<open>Strategy B, lines 82 to 88, falling through to C.\<close>

definition strategy_b :: "ustr \<Rightarrow> pyfloat option" where
  "strategy_b s1 =
    (if 46 \<in> set s1 \<and> 44 \<in> set s1 \<and> rfind 44 s1 > rfind 46 s1 then
       (let b = replace_char 44 [46] (replace_char 46 [] s1);
            b' = filter plain_char b
        in case py_float b' of
          Some v \<Rightarrow> Some v
        | None \<Rightarrow> strategy_c s1)
     else strategy_c s1)"

text \<open>Strategy A, lines 73 to 79, falling through to B.\<close>

definition strategy_a :: "ustr \<Rightarrow> pyfloat option" where
  "strategy_a s1 =
    (let a = replace_char 44 [] (replace_char 32 [] s1);
         a' = filter plain_char a
     in if a' \<noteq> [] \<and> list_ex is_digit a' then
          (case py_float a' of
             Some v \<Rightarrow> Some v
           | None \<Rightarrow> strategy_b s1)
        else strategy_b s1)"

text \<open>
  Lines 59 to 70. The result is \<open>None\<close> when the pattern does not match; otherwise the
  value that the branch returns, \<open>Some None\<close> being NaN. Neither \<open>if\<close> failing leaves
  the branch without a return, and the strategies follow.
\<close>

definition suffix_branch :: "ustr \<Rightarrow> pyfloat option option" where
  "suffix_branch s1 =
    (let t = strip s1
     in case re_match_alts suffix_pat None t of
       None \<Rightarrow> None
     | Some (rest, ms) \<Rightarrow>
         (let num = take (length t - length (ms ! 0)) t;
              suf = take 1 (ms ! 1);
              num_clean = replace_char 32 [] (replace_char 44 [] num)
          in case py_float num_clean of
            None \<Rightarrow> Some None
          | Some val \<Rightarrow>
              if lower suf = u ''k'' then Some (Some (fscale 1000 val))
              else if lower suf = u ''m'' then Some (Some (fscale 1000000 val))
              else None))"

definition parse_single_number :: "ustr \<Rightarrow> pyfloat option" where
  "parse_single_number s =
    (let s0 = normalize_whitespace s
     in if s0 = [] \<or> lower s0 \<in> set na_words then None
        else
          (let s1 = filter keep_char (re_sub_empty verbose_pat s0);
               s1' = (if re_match_alts paren_pat None s1 \<noteq> None
                      then 45 # rstrip_chars (u '')'') (lstrip_chars (u ''('') (strip s1))
                      else s1)
           in case suffix_branch s1' of
             Some v \<Rightarrow> v
           | None \<Rightarrow> strategy_a s1'))"

text \<open>\<open>^[\[\(\{'\"]+|[\]\)\}'\"]+$\<close>\<close>

definition wrap_pat :: "item list list" where
  "wrap_pat =
    [[Bol, Cls (one_of [91, 40, 123, 39, 34]), Star (one_of [91, 40, 123, 39, 34])],
     [Cls (one_of [93, 41, 125, 39, 34]), Star (one_of [93, 41, 125, 39, 34]), Eol]]"

text \<open>\<open>\bto\b|[-\<dots>]\<close>: the word ``to'', a hyphen, an en dash or an em dash.\<close>

definition range_pat :: "item list list" where
  "range_pat = [Bnd # lit (u ''to'') @ [Bnd], [Cls (one_of [45, 8211, 8212])]]"

text \<open>The values that are not NaN, in their order.\<close>

definition known :: "'a option list \<Rightarrow> 'a list" where
  "known xs = map the (filter (\<lambda>x. x \<noteq> None) xs)"

type_synonym salary = "pyfloat option \<times> pyfloat option \<times> pyfloat option"

definition all_nan :: salary where
  "all_nan = (None, None, None)"

definition spread :: "pyfloat list \<Rightarrow> salary" where
  "spread nums = (Some (py_min nums), Some (py_max nums), midpoint (py_min nums) (py_max nums))"

definition parse_salary_field :: "ustr option \<Rightarrow> salary" where
  "parse_salary_field cell =
    (if cell = None then all_nan
     else
       (let s = normalize_whitespace (the cell)
        in if s = [] then all_nan
           else
             (let s_clean = strip (re_sub_empty wrap_pat s)
              in if re_search range_pat s_clean then
                   (let parts = map strip (filter (\<lambda>p. strip p \<noteq> []) (re_split range_pat s_clean));
                        nums = known (map parse_single_number parts)
                    in if length nums = 0 then all_nan
                       else if length nums = 1 then (Some (nums ! 0), Some (nums ! 0), Some (nums ! 0))
                       else spread nums)
                 else
                   (let tokens = re_findall number_pat s_clean;
                        nums = (if length tokens \<ge> 2 then known (map parse_single_number tokens)
                                else [])
                    in if length tokens \<ge> 2 \<and> length nums \<ge> 2 then spread nums
                       else
                         (let val = parse_single_number s_clean
                          in if val = None then all_nan else (val, val, val))))))"

subsection \<open>The frame and the column statistics\<close>

text \<open>
  A frame is its list of rows, each row giving the cell of every column, and the names of
  its columns; a raw cell is a string or missing. So every column has \<open>len(df)\<close> cells,
  and the loops over \<open>enumerate\<close> and \<open>range(n)\<close> are maps over lists of that length.
\<close>

record frame =
  columns :: "ustr list"
  rows :: "(ustr \<Rightarrow> ustr option) list"

definition column :: "frame \<Rightarrow> ustr \<Rightarrow> ustr option list" where
  "column df name = map (\<lambda>row. row name) (rows df)"

type_synonym parsed = "pyfloat option list \<times> pyfloat option list \<times> pyfloat option list"

text \<open>Lines 188 to 193: a parsed value goes into a slot that is still NaN.\<close>

definition fill_slot :: "pyfloat option \<Rightarrow> pyfloat option \<Rightarrow> pyfloat option" where
  "fill_slot old new = (if new \<noteq> None \<and> old = None then new else old)"

definition fill_from_column :: "frame \<Rightarrow> ustr \<Rightarrow> parsed \<Rightarrow> parsed" where
  "fill_from_column df col_name p =
    (if col_name \<notin> set (columns df) then p
     else
       (let res = map parse_salary_field (column df col_name)
        in case p of (parsed_min, parsed_max, parsed_mean) \<Rightarrow>
             (map2 fill_slot parsed_min (map fst res),
              map2 fill_slot parsed_max (map (fst \<circ> snd) res),
              map2 fill_slot parsed_mean (map (snd \<circ> snd) res))))"

text \<open>Lines 205 to 210, for one row.\<close>

definition last_pass :: "salary \<Rightarrow> salary" where
  "last_pass r =
    (case r of (mn, mx, me) \<Rightarrow>
      (let mn' = (if mn = None \<and> me \<noteq> None then me else mn);
           mx' = (if mx = None \<and> me \<noteq> None then me else mx);
           me' = (if me = None \<and> mn' \<noteq> None \<and> mx' \<noteq> None
                  then midpoint (the mn') (the mx') else me)
       in (mn', mx', me')))"

text \<open>Lines 178 to 215: the three temporary columns.\<close>

definition reconcile :: "frame \<Rightarrow> ustr \<Rightarrow> ustr \<Rightarrow> ustr \<Rightarrow> parsed" where
  "reconcile df min_col max_col mean_col =
    (let n = length (rows df);
         p0 = (replicate n None, replicate n None, replicate n None);
         p1 = (if mean_col \<in> set (columns df) then fill_from_column df mean_col p0 else p0);
         p2 = (if min_col \<in> set (columns df) then fill_from_column df min_col p1 else p1);
         p3 = (if max_col \<in> set (columns df) then fill_from_column df max_col p2 else p2);
         done = (case p3 of (a, b, c) \<Rightarrow> map last_pass (zip a (zip b c)))
     in (map fst done, map (fst \<circ> snd) done, map (snd \<circ> snd) done))"

text \<open>
  The statistics of pandas with \<open>skipna=True\<close>, on the values that are not NaN: the mean
  is their sum, taken from left to right, over their number; the median is the middle one
  of the sorted values or the mean of the two middle ones. Both are NaN for no value.
\<close>

definition fsum :: "pyfloat list \<Rightarrow> pyfloat option" where
  "fsum xs = foldl (\<lambda>acc x. case acc of None \<Rightarrow> None | Some a \<Rightarrow> fadd a x) (Some (Fin 0)) xs"

definition series_mean :: "pyfloat option list \<Rightarrow> pyfloat option" where
  "series_mean col =
    (let xs = known col
     in if xs = [] then None
        else map_option (fscale (1 / of_nat (length xs))) (fsum xs))"

fun insert_sorted :: "pyfloat \<Rightarrow> pyfloat list \<Rightarrow> pyfloat list" where
  "insert_sorted x [] = [x]"
| "insert_sorted x (y # ys) = (if fless y x then y # insert_sorted x ys else x # y # ys)"

definition sort_floats :: "pyfloat list \<Rightarrow> pyfloat list" where
  "sort_floats xs = foldr insert_sorted xs []"

definition series_median :: "pyfloat option list \<Rightarrow> pyfloat option" where
  "series_median col =
    (let xs = sort_floats (known col); k = length xs
     in if k = 0 then None
        else if odd k then Some (xs ! (k div 2))
        else midpoint (xs ! (k div 2 - 1)) (xs ! (k div 2)))"

text \<open>\<open>s.fillna(v)\<close>; filling with NaN changes nothing.\<close>

definition fillna :: "pyfloat option list \<Rightarrow> pyfloat option \<Rightarrow> pyfloat option list" where
  "fillna col v = map (\<lambda>x. if x = None then v else x) col"

text \<open>Lines 218 to 232: the values that fill the three columns, and the filled columns.\<close>

definition fill_values :: "ustr option \<Rightarrow> parsed \<Rightarrow> pyfloat option \<times> pyfloat option \<times> pyfloat option" where
  "fill_values fill_strategy t =
    (case t of (tmin, tmax, tmean) \<Rightarrow>
      if fill_strategy = Some (u ''median'')
      then (series_median tmin, series_median tmax, series_mean tmean)
      else if fill_strategy = Some (u ''mean'')
      then (series_mean tmin, series_mean tmax, series_mean tmean)
      else (None, None, None))"

definition back_fill :: "ustr option \<Rightarrow> parsed \<Rightarrow> parsed" where
  "back_fill fill_strategy t =
    (case (t, fill_values fill_strategy t) of
       ((tmin, tmax, tmean), (vmin, vmax, vmean)) \<Rightarrow>
         (fillna tmin vmin, fillna tmax vmax, fillna tmean vmean))"

text \<open>
  A column of the result is a float column or a nullable integer column. The cast to
  \<open>Int64\<close> keeps a missing value and raises on an infinity and on a value outside the
  64-bit range.
\<close>

datatype series = Float64 "pyfloat option list" | Int64 "int option list"

definition round_half_even :: "rat \<Rightarrow> int" where
  "round_half_even q =
    (let f = \<lfloor>q\<rfloor>; d = q - of_int f
     in if d < 1 / 2 then f else if 1 / 2 < d then f + 1 else if even f then f else f + 1)"

definition rounding :: "ustr \<Rightarrow> rat \<Rightarrow> int" where
  "rounding round_method q =
    (if round_method = u ''floor'' then \<lfloor>q\<rfloor>
     else if round_method = u ''ceil'' then \<lceil>q\<rceil>
     else round_half_even q)"

definition to_int64 :: "ustr \<Rightarrow> pyfloat option \<Rightarrow> py_error + int option" where
  "to_int64 round_method v =
    (case v of
       None \<Rightarrow> Inr None
     | Some (Fin q) \<Rightarrow>
         (let k = rounding round_method q
          in if - (2 ^ 63) \<le> k \<and> k < 2 ^ 63 then Inr (Some k) else Inl TypeError)
     | Some PInf \<Rightarrow> Inl TypeError
     | Some NInf \<Rightarrow> Inl TypeError)"

fun to_int_series :: "ustr \<Rightarrow> pyfloat option list \<Rightarrow> py_error + int option list" where
  "to_int_series round_method [] = Inr []"
| "to_int_series round_method (v # vs) =
     (case to_int64 round_method v of
        Inl e \<Rightarrow> Inl e
      | Inr k \<Rightarrow>
          (case to_int_series round_method vs of
             Inl e \<Rightarrow> Inl e
           | Inr ks \<Rightarrow> Inr (k # ks)))"

definition convert :: "bool \<Rightarrow> ustr \<Rightarrow> pyfloat option list \<Rightarrow> py_error + series" where
  "convert enforce_int round_method col =
    (if enforce_int then
       (case to_int_series round_method col of Inl e \<Rightarrow> Inl e | Inr ks \<Rightarrow> Inr (Int64 ks))
     else Inr (Float64 col))"

text \<open>
  Lines 217 to 268, from the temporary columns on: the three columns that the call
  assigns, by name. The other columns of the frame stay as they are.
\<close>

definition assign_columns ::
  "bool \<Rightarrow> ustr option \<Rightarrow> bool \<Rightarrow> ustr \<Rightarrow> parsed \<Rightarrow> py_error + (ustr \<times> series) list" where
  "assign_columns overwrite fill_strategy enforce_int round_method t =
    (case back_fill fill_strategy t of
       (fmin, fmax, fmean) \<Rightarrow>
         (let suffix = (if overwrite then [] else u ''_clean'')
          in case convert enforce_int round_method fmin of
            Inl e \<Rightarrow> Inl e
          | Inr cmin \<Rightarrow>
              (case convert enforce_int round_method fmax of
                 Inl e \<Rightarrow> Inl e
               | Inr cmax \<Rightarrow>
                   (case convert enforce_int round_method fmean of
                      Inl e \<Rightarrow> Inl e
                    | Inr cmean \<Rightarrow>
                        Inr [(u ''min_salary'' @ suffix, cmin),
                             (u ''max_salary'' @ suffix, cmax),
                             (u ''mean_salary'' @ suffix, cmean)]))))"

definition clean_salary_columns_int ::
  "frame \<Rightarrow> ustr \<Rightarrow> ustr \<Rightarrow> ustr \<Rightarrow> bool \<Rightarrow> ustr option \<Rightarrow> bool \<Rightarrow> ustr
     \<Rightarrow> py_error + (ustr \<times> series) list" where
  "clean_salary_columns_int df min_col max_col mean_col overwrite fill_strategy enforce_int
       round_method =
    assign_columns overwrite fill_strategy enforce_int round_method
      (reconcile df min_col max_col mean_col)"

text \<open>A row given by the cells of its columns; any other cell is missing.\<close>

definition row_of :: "(ustr \<times> ustr option) list \<Rightarrow> ustr \<Rightarrow> ustr option" where
  "row_of cells name = (case map_of cells name of Some c \<Rightarrow> c | None \<Rightarrow> None)"


section \<open>title\_cleaner.py\<close>

text \<open>A pattern \<open>\bwords\b\<close> compiled with \<open>re.I\<close>.\<close>

definition word_pat :: "string \<Rightarrow> item list list" where
  "word_pat s = [Bnd # lit_i (u s) @ [Bnd]]"

text \<open>\<open>\bfront[- ]?end\b\<close> and \<open>\bfull[- ]?stack\b\<close>.\<close>

definition joined_pat :: "string \<Rightarrow> string \<Rightarrow> item list list" where
  "joined_pat a b = [Bnd # lit_i (u a) @ Opt (one_of (u ''- '')) # lit_i (u b) @ [Bnd]]"

definition DATA_RE :: "item list list list" where
  "DATA_RE =
    [word_pat ''data scientist'', word_pat ''data science'', word_pat ''machine learning'',
     word_pat ''ml engineer'', word_pat ''ml'', word_pat ''deep learning'',
     word_pat ''computer vision'', word_pat ''nlp'', word_pat ''natural language'',
     word_pat ''pytorch'', word_pat ''tensorflow'', word_pat ''scikit'', word_pat ''pyspark'',
     word_pat ''spark'', word_pat ''data engineer'', word_pat ''data analyst'',
     word_pat ''statistician'', word_pat ''research scientist'']"

definition SOFTWARE_RE :: "item list list list" where
  "SOFTWARE_RE =
    [word_pat ''software engineer'', word_pat ''software developer'', word_pat ''devops'',
     word_pat ''sre'', word_pat ''site reliability'', word_pat ''backend'',
     joined_pat ''front'' ''end'', joined_pat ''full'' ''stack'', word_pat ''mobile engineer'',
     word_pat ''platform engineer'', word_pat ''application engineer'', word_pat ''engineer'',
     word_pat ''programmer'', word_pat ''developer'', word_pat ''backend'', word_pat ''frontend'']"

text \<open>The loop \<open>for r in res: if r.search(t): return\<close>: does it return?\<close>

fun any_search :: "item list list list \<Rightarrow> ustr \<Rightarrow> bool" where
  "any_search [] t = False"
| "any_search (r # rs) t = (if re_search r t then True else any_search rs t)"

definition classify_title ::
  "ustr option \<Rightarrow> item list list list \<Rightarrow> item list list list \<Rightarrow> ustr \<Rightarrow> ustr \<Rightarrow> bool \<Rightarrow> ustr" where
  "classify_title title data_res sw_res unknown_label other_label coerce_other_to_sw =
    (if title = None then unknown_label
     else
       (let t = strip (the title)
        in if t = [] then unknown_label
           else if any_search data_res t then u ''Data Scientist''
           else if any_search sw_res t then u ''Software Engineer''
           else if coerce_other_to_sw then u ''Software Engineer''
           else other_label))"

text \<open>The call with the default patterns and labels.\<close>

definition classify :: "ustr option \<Rightarrow> bool \<Rightarrow> ustr" where
  "classify title coerce = classify_title title DATA_RE SOFTWARE_RE (u ''Unknown'') (u ''Other'') coerce"

text \<open>A title is missing when \<open>pd.isna\<close> holds of it and blank when nothing is left after \<open>strip\<close>.\<close>

definition blank :: "ustr option \<Rightarrow> bool" where
  "blank title \<longleftrightarrow> title = None \<or> strip (the title) = []"

section \<open>Notions for the statements\<close>



text \<open>A column of the result has an undefined row.\<close>

definition has_na :: "series \<Rightarrow> bool" where
  "has_na col = (case col of Float64 xs \<Rightarrow> None \<in> set xs | Int64 ks \<Rightarrow> None \<in> set ks)"

text \<open>
  The known values of a column are all finite and the sum of their magnitudes is within
  the range of a double, so that no sum of some of them overflows.
\<close>

fun magnitude :: "pyfloat \<Rightarrow> rat" where
  "magnitude (Fin q) = \<bar>q\<bar>"
| "magnitude PInf = dbl_limit"
| "magnitude NInf = dbl_limit"

definition in_range :: "pyfloat list \<Rightarrow> bool" where
  "in_range xs \<longleftrightarrow> sum_list (map magnitude xs) < dbl_limit"

text \<open>
  What the back-fill achieves for one column: \<open>t\<close> is the temporary column, \<open>v\<close> the
  value that fills it and \<open>c\<close> the column of the result.
\<close>

definition filled :: "pyfloat option list \<Rightarrow> pyfloat option \<Rightarrow> series \<Rightarrow> bool" where
  "filled t v c \<longleftrightarrow>
     (has_na c \<longrightarrow> v = None)
     \<and> (known t = [] \<longrightarrow> v = None)
     \<and> (known t \<noteq> [] \<and> in_range (known t) \<longrightarrow> v \<noteq> None \<and> \<not> has_na c)"

text \<open>Two frames with the one raw column \<open>min_amount\<close>; \<open>nines\<close> is a number of 309 digits.\<close>

definition nines :: ustr where
  "nines = replicate 309 57"

definition small_frame :: frame where
  "small_frame =
    \<lparr>columns = [u ''min_amount''],
     rows = [row_of [(u ''min_amount'', Some (u ''$50,000''))],
             row_of [(u ''min_amount'', Some (u ''NA''))]]\<rparr>"

definition huge_frame :: frame where
  "huge_frame =
    \<lparr>columns = [u ''min_amount''],
     rows = [row_of [(u ''min_amount'', Some (u ''5 to ('' @ nines @ u '') to 5''))],
             row_of [(u ''min_amount'', Some nines)],
             row_of [(u ''min_amount'', None)]]\<rparr>"

section \<open>The examples of the specification\<close>

lemma parse_location_remote_us:
  "parse_location (Some (u ''Remote, US'')) =
     Inr \<lparr>city = None, state = None, country = Some (u ''US''), is_remote = True,
          raw = Some (u ''Remote, US'')\<rparr>"
  by code_simp

lemma parse_location_new_york:
  "parse_location (Some (u ''New York, NY, US'')) =
     Inr \<lparr>city = Some (u ''New York''), state = Some (u ''NY''), country = Some (u ''US''),
          is_remote = False, raw = Some (u ''New York, NY, US'')\<rparr>"
  by code_simp

lemma parse_location_us:
  "parse_location (Some (u ''US'')) =
     Inr \<lparr>city = None, state = None, country = Some (u ''US''), is_remote = False,
          raw = Some (u ''US'')\<rparr>"
  by code_simp

text \<open>
  Claim C4: on \<open>"Remote, US"\<close> the parser returns no city, no state, the country
  \<open>"US"\<close> and the remote flag set; on \<open>"New York, NY, US"\<close> the city \<open>"New York"\<close>,
  the state \<open>"NY"\<close>, the country \<open>"US"\<close> and the flag clear; on \<open>"US"\<close> no city, no
  state and the country \<open>"US"\<close>.
\<close>

theorem parse_location_examples:
  "parse_location (Some (u ''Remote, US'')) =
     Inr \<lparr>city = None, state = None, country = Some (u ''US''), is_remote = True,
          raw = Some (u ''Remote, US'')\<rparr>
   \<and> parse_location (Some (u ''New York, NY, US'')) =
     Inr \<lparr>city = Some (u ''New York''), state = Some (u ''NY''), country = Some (u ''US''),
          is_remote = False, raw = Some (u ''New York, NY, US'')\<rparr>
   \<and> parse_location (Some (u ''US'')) =
     Inr \<lparr>city = None, state = None, country = Some (u ''US''), is_remote = False,
          raw = Some (u ''US'')\<rparr>"
  using parse_location_remote_us parse_location_new_york parse_location_us by blast

text \<open>
  Claim C1 says that \<open>parse_location\<close> returns on every cell. On the cell
  \<open>"Remote"\<close> the only token is dropped as the remote marker, line 183 reads the last
  element of an empty list, and the call ends in \<open>IndexError\<close>.
\<close>

theorem parse_location_remote_raises:
  "parse_location (Some (u ''Remote'')) = Inl IndexError"
  by code_simp

text \<open>
  Claim C2 says that the field \<open>"\<euro>50.000,00"\<close> is read as the single value 50000.
  The text holds the two number tokens \<open>50.000\<close> and \<open>00\<close>, so the list branch of lines
  135 to 142 returns their minimum 0, their maximum 50 and the mean 25.
\<close>

theorem parse_salary_field_european:
  "parse_salary_field (Some (8364 # u ''50.000,00'')) = (Some (Fin 0), Some (Fin 50), Some (Fin 25))"
  by code_simp

text \<open>
  Claim C3 says that the field \<open>"(60,000)"\<close> is read as \<open>-60000\<close>. Line 118 strips the
  brackets before the number is parsed, so the value is \<open>60000\<close>.
\<close>

theorem parse_salary_field_parenthesized:
  "parse_salary_field (Some (u ''(60,000)'')) =
     (Some (Fin 60000), Some (Fin 60000), Some (Fin 60000))"
  by code_simp

section \<open>The title classifier\<close>

lemma any_search_iff: "any_search rs t \<longleftrightarrow> (\<exists>r \<in> set rs. re_search r t)"
  by (induction rs) auto

lemma labels_distinct:
  "u ''Data Scientist'' \<noteq> u ''Unknown''" "u ''Software Engineer'' \<noteq> u ''Unknown''"
  "u ''Other'' \<noteq> u ''Unknown''"
  by (simp_all add: u_def)

lemma classify_senior_data_engineer:
  "classify (Some (u ''Senior Data Engineer'')) coerce = u ''Data Scientist''"
proof -
  have "any_search DATA_RE (strip (u ''Senior Data Engineer''))"
    by code_simp
  moreover have "strip (u ''Senior Data Engineer'') \<noteq> []"
    by code_simp
  ultimately show ?thesis
    by (simp add: classify_def classify_title_def)
qed

text \<open>
  Claim C7: \<open>classify_title\<close> returns \<open>"Unknown"\<close> exactly for a missing or blank
  title. For any other title the data patterns come first: if one of them matches
  somewhere in the stripped title the label is \<open>"Data Scientist"\<close> (as for
  \<open>"Senior Data Engineer"\<close>); otherwise, if a software pattern matches, it is
  \<open>"Software Engineer"\<close>; otherwise it is \<open>"Software Engineer"\<close> under the default
  coercion and \<open>"Other"\<close> without it.
\<close>

theorem classify_title_labels:
  "(classify title coerce = u ''Unknown'' \<longleftrightarrow> blank title)
   \<and> (\<not> blank title \<longrightarrow>
        classify title coerce =
          (if \<exists>r \<in> set DATA_RE. re_search r (strip (the title)) then u ''Data Scientist''
           else if \<exists>r \<in> set SOFTWARE_RE. re_search r (strip (the title)) then u ''Software Engineer''
           else if coerce then u ''Software Engineer''
           else u ''Other''))
   \<and> classify (Some (u ''Senior Data Engineer'')) coerce = u ''Data Scientist''"
proof (intro conjI impI)
  show "classify title coerce = u ''Unknown'' \<longleftrightarrow> blank title"
    using labels_distinct
    by (auto simp: classify_def classify_title_def blank_def Let_def)
next
  assume "\<not> blank title"
  then obtain s where "title = Some s" and "strip s \<noteq> []"
    by (cases title) (auto simp: blank_def)
  then show "classify title coerce =
          (if \<exists>r \<in> set DATA_RE. re_search r (strip (the title)) then u ''Data Scientist''
           else if \<exists>r \<in> set SOFTWARE_RE. re_search r (strip (the title)) then u ''Software Engineer''
           else if coerce then u ''Software Engineer''
           else u ''Other'')"
    by (simp add: classify_def classify_title_def blank_def Let_def any_search_iff)
next
  show "classify (Some (u ''Senior Data Engineer'')) coerce = u ''Data Scientist''"
    by (rule classify_senior_data_engineer)
qed

lemma barista_not_blank: "\<not> blank (Some (u ''Barista''))"
  by code_simp

lemma barista_no_data: "\<not> any_search DATA_RE (strip (u ''Barista''))"
  by code_simp

lemma barista_no_software: "\<not> any_search SOFTWARE_RE (strip (u ''Barista''))"
  by code_simp

theorem classify_title_labels_witness:
  "\<not> blank (Some (u ''Barista''))
   \<and> classify (Some (u ''Barista'')) False = u ''Other''
   \<and> classify (Some (u ''Barista'')) True = u ''Software Engineer''"
  using classify_title_labels [of "Some (u ''Barista'')" False]
        classify_title_labels [of "Some (u ''Barista'')" True]
        barista_not_blank barista_no_data barista_no_software
  by (simp add: any_search_iff)

section \<open>The export helper\<close>



section \<open>The location parser\<close>

subsection \<open>The country from a two-letter token\<close>



















subsection \<open>The remote marker\<close>






























section \<open>The salary parser\<close>

subsection \<open>The shape of a parsed field\<close>

lemma dbl_limit_eq: "dbl_limit = 2 ^ 1024 - 2 ^ 970"
  by (simp add: dbl_limit_def)

lemma dbl_limit_pos: "0 < dbl_limit"
  by (simp add: dbl_limit_def)




lemma not_fless_fle: "\<not> fless a b \<Longrightarrow> fle b a"
  by (cases a; cases b) (auto simp: fle_def)





lemma to_double_Fin: "\<bar>q\<bar> < dbl_limit \<Longrightarrow> to_double q = Fin q"
  by (auto simp: to_double_def)







subsection \<open>The back-fill\<close>

lemma magnitude_nonneg: "0 \<le> magnitude x"
  using dbl_limit_pos by (cases x) simp_all

lemma sum_magnitude_nonneg: "0 \<le> sum_list (map magnitude xs)"
  by (induction xs) (simp_all add: magnitude_nonneg)

lemma in_range_finite:
  assumes "in_range xs" and "x \<in> set xs"
  shows "\<exists>q. x = Fin q"
proof (cases x)
  case (Fin q)
  then show ?thesis by simp
next
  case PInf
  have "magnitude x \<le> sum_list (map magnitude xs)"
    using assms(2) magnitude_nonneg by (intro member_le_sum_list) auto
  with assms(1) PInf show ?thesis by (simp add: in_range_def)
next
  case NInf
  have "magnitude x \<le> sum_list (map magnitude xs)"
    using assms(2) magnitude_nonneg by (intro member_le_sum_list) auto
  with assms(1) NInf show ?thesis by (simp add: in_range_def)
qed

lemma foldl_fadd_finite:
  "\<bar>a\<bar> + sum_list (map magnitude xs) < dbl_limit \<Longrightarrow>
     \<exists>q. foldl (\<lambda>acc x. case acc of None \<Rightarrow> None | Some a \<Rightarrow> fadd a x) (Some (Fin a)) xs
            = Some (Fin q)"
proof (induction xs arbitrary: a)
  case Nil
  then show ?case by simp
next
  case (Cons x xs)
  have nn: "0 \<le> sum_list (map magnitude xs)" by (rule sum_magnitude_nonneg)
  show ?case
  proof (cases x)
    case (Fin b)
    have "\<bar>a + b\<bar> \<le> \<bar>a\<bar> + \<bar>b\<bar>" by simp
    with Cons.prems nn have small: "\<bar>a + b\<bar> < dbl_limit" and
      next': "\<bar>a + b\<bar> + sum_list (map magnitude xs) < dbl_limit"
      by (simp_all add: Fin)
    from Cons.IH [OF next'] show ?thesis
      by (simp add: Fin to_double_Fin [OF small])
  next
    case PInf
    with Cons.prems nn show ?thesis by simp
  next
    case NInf
    with Cons.prems nn show ?thesis by simp
  qed
qed

lemma fsum_in_range: "in_range xs \<Longrightarrow> \<exists>q. fsum xs = Some (Fin q)"
  unfolding fsum_def in_range_def by (rule foldl_fadd_finite) simp

lemma series_mean_defined:
  assumes "known t \<noteq> []" and "in_range (known t)"
  shows "series_mean t \<noteq> None"
  using assms fsum_in_range [OF assms(2)] by (auto simp: series_mean_def Let_def)

lemma series_mean_empty: "known t = [] \<Longrightarrow> series_mean t = None"
  by (simp add: series_mean_def)

lemma set_insert_sorted: "set (insert_sorted x ys) = insert x (set ys)"
  by (induction ys) auto

lemma length_insert_sorted: "length (insert_sorted x ys) = Suc (length ys)"
  by (induction ys) auto

lemma set_sort_floats: "set (sort_floats xs) = set xs"
  by (induction xs) (simp_all add: sort_floats_def set_insert_sorted)

lemma length_sort_floats: "length (sort_floats xs) = length xs"
  by (induction xs) (simp_all add: sort_floats_def length_insert_sorted)

lemma midpoint_finite: "midpoint (Fin a) (Fin b) \<noteq> None"
  by (simp add: midpoint_def)

lemma series_median_defined:
  assumes "known t \<noteq> []" and "in_range (known t)"
  shows "series_median t \<noteq> None"
proof -
  let ?xs = "sort_floats (known t)"
  let ?k = "length ?xs"
  have k: "0 < ?k"
    using assms(1) by (simp add: length_sort_floats)
  have fin: "\<exists>q. ?xs ! i = Fin q" if "i < ?k" for i
  proof -
    have "?xs ! i \<in> set (known t)"
      using that nth_mem [of i ?xs] by (simp add: set_sort_floats)
    then show ?thesis
      by (rule in_range_finite [OF assms(2)])
  qed
  show ?thesis
  proof (cases "odd ?k")
    case True
    with k show ?thesis by (simp add: series_median_def Let_def)
  next
    case False
    have "?k div 2 - 1 < ?k" and "?k div 2 < ?k"
      using k by arith+
    then obtain a b where "?xs ! (?k div 2 - 1) = Fin a" and "?xs ! (?k div 2) = Fin b"
      using fin by blast
    with False k show ?thesis
      by (simp add: series_median_def Let_def midpoint_finite)
  qed
qed

lemma series_median_empty: "known t = [] \<Longrightarrow> series_median t = None"
  by (simp add: series_median_def sort_floats_def)

lemma fillna_None: "None \<in> set (fillna t v) \<Longrightarrow> v = None"
  by (auto simp: fillna_def split: if_splits)

lemma to_int_series_None:
  "to_int_series m vs = Inr ks \<Longrightarrow> None \<in> set ks \<longleftrightarrow> None \<in> set vs"
proof (induction vs arbitrary: ks)
  case Nil
  then show ?case by auto
next
  case (Cons v vs)
  then obtain k ks' where k: "to_int64 m v = Inr k" and ks': "to_int_series m vs = Inr ks'"
    and ks: "ks = k # ks'"
    by (auto split: sum.splits)
  have "k = None \<longleftrightarrow> v = None"
    using k by (auto simp: to_int64_def Let_def split: option.splits pyfloat.splits if_splits)
  with Cons.IH [OF ks'] ks show ?case by auto
qed

lemma convert_has_na:
  "convert enforce_int m col = Inr c \<Longrightarrow> has_na c \<longleftrightarrow> None \<in> set col"
  by (auto simp: convert_def has_na_def to_int_series_None split: if_splits sum.splits)

lemma filled_column:
  assumes "convert enforce_int m (fillna t v) = Inr c"
    and "known t = [] \<longrightarrow> v = None"
    and "known t \<noteq> [] \<and> in_range (known t) \<longrightarrow> v \<noteq> None"
  shows "filled t v c"
  using assms convert_has_na [OF assms(1)] fillna_None [of t v]
  by (auto simp: filled_def)


lemma fill_values_sound:
  assumes "fill_strategy = Some (u ''median'') \<or> fill_strategy = Some (u ''mean'')"
    and "fill_values fill_strategy (tmin, tmax, tmean) = (vmin, vmax, vmean)"
  shows "known tmin = [] \<longrightarrow> vmin = None"
    and "known tmin \<noteq> [] \<and> in_range (known tmin) \<longrightarrow> vmin \<noteq> None"
    and "known tmax = [] \<longrightarrow> vmax = None"
    and "known tmax \<noteq> [] \<and> in_range (known tmax) \<longrightarrow> vmax \<noteq> None"
    and "known tmean = [] \<longrightarrow> vmean = None"
    and "known tmean \<noteq> [] \<and> in_range (known tmean) \<longrightarrow> vmean \<noteq> None"
  using assms
  by (auto simp: fill_values_def series_mean_empty series_median_empty
           dest: series_mean_defined series_median_defined split: if_splits)

text \<open>
  Claim C8, amended. After \<open>clean_salary_columns_int\<close> has run with the strategy
  \<open>"median"\<close> or \<open>"mean"\<close>, each of the three columns it assigns has an undefined row
  only if the value that fills it is NaN. That value is NaN when the column had no known
  value; it is defined, and the column has no undefined row, when the column had a known
  value and its known values are finite with magnitudes that sum to less than the range
  of a double.
\<close>

theorem back_fill_defined:
  assumes "clean_salary_columns_int df min_col max_col mean_col overwrite fill_strategy
             enforce_int round_method = Inr out"
    and "fill_strategy = Some (u ''median'') \<or> fill_strategy = Some (u ''mean'')"
    and "reconcile df min_col max_col mean_col = (tmin, tmax, tmean)"
    and "fill_values fill_strategy (tmin, tmax, tmean) = (vmin, vmax, vmean)"
  shows "\<exists>cmin cmax cmean.
           map snd out = [cmin, cmax, cmean]
           \<and> filled tmin vmin cmin \<and> filled tmax vmax cmax \<and> filled tmean vmean cmean"
proof -
  have bf: "back_fill fill_strategy (tmin, tmax, tmean) =
              (fillna tmin vmin, fillna tmax vmax, fillna tmean vmean)"
    by (simp add: back_fill_def assms(4))
  from assms(1) obtain cmin cmax cmean where
    c: "convert enforce_int round_method (fillna tmin vmin) = Inr cmin"
       "convert enforce_int round_method (fillna tmax vmax) = Inr cmax"
       "convert enforce_int round_method (fillna tmean vmean) = Inr cmean"
    and out: "map snd out = [cmin, cmax, cmean]"
    unfolding clean_salary_columns_int_def assign_columns_def assms(3) bf
    by (auto simp: Let_def split: sum.splits)
  note v = fill_values_sound [OF assms(2,4)]
  have f1: "filled tmin vmin cmin"
    by (rule filled_column [OF c(1) v(1) v(2)])
  have f2: "filled tmax vmax cmax"
    by (rule filled_column [OF c(2) v(3) v(4)])
  have f3: "filled tmean vmean cmean"
    by (rule filled_column [OF c(3) v(5) v(6)])
  show ?thesis
    by (rule exI [of _ cmin], rule exI [of _ cmax], rule exI [of _ cmean])
       (simp add: out f1 f2 f3)
qed

lemma small_frame_columns:
  "reconcile small_frame (u ''min_amount'') (u ''max_amount'') (u ''mean_salary'') =
     ([Some (Fin 50000), None], [Some (Fin 50000), None], [Some (Fin 50000), None])"
  by code_simp

lemma small_frame_fill:
  "fill_values (Some (u ''median''))
     ([Some (Fin 50000), None], [Some (Fin 50000), None], [Some (Fin 50000), None]) =
     (Some (Fin 50000), Some (Fin 50000), Some (Fin 50000))"
  by code_simp

lemma small_frame_result:
  "assign_columns True (Some (u ''median'')) True (u ''round'')
     ([Some (Fin 50000), None], [Some (Fin 50000), None], [Some (Fin 50000), None]) =
     Inr [(u ''min_salary'', Int64 [Some 50000, Some 50000]),
          (u ''max_salary'', Int64 [Some 50000, Some 50000]),
          (u ''mean_salary'', Int64 [Some 50000, Some 50000])]"
  by code_simp

theorem back_fill_defined_witness:
  "clean_salary_columns_int small_frame (u ''min_amount'') (u ''max_amount'') (u ''mean_salary'')
     True (Some (u ''median'')) True (u ''round'') =
     Inr [(u ''min_salary'', Int64 [Some 50000, Some 50000]),
          (u ''max_salary'', Int64 [Some 50000, Some 50000]),
          (u ''mean_salary'', Int64 [Some 50000, Some 50000])]
   \<and> filled [Some (Fin 50000), None] (Some (Fin 50000)) (Int64 [Some 50000, Some 50000])"
proof -
  have r: "clean_salary_columns_int small_frame (u ''min_amount'') (u ''max_amount'')
     (u ''mean_salary'') True (Some (u ''median'')) True (u ''round'') =
     Inr [(u ''min_salary'', Int64 [Some 50000, Some 50000]),
          (u ''max_salary'', Int64 [Some 50000, Some 50000]),
          (u ''mean_salary'', Int64 [Some 50000, Some 50000])]"
    by (simp add: clean_salary_columns_int_def small_frame_columns small_frame_result)
  from back_fill_defined [OF r _ small_frame_columns small_frame_fill]
  show ?thesis
    by (simp add: r)
qed

text \<open>
  The claim as stated fills every column that has a known value. In the frame below the
  column has the known values \<open>-inf\<close> and \<open>+inf\<close>; their median is NaN and the third
  row stays undefined.
\<close>

lemma huge_frame_columns:
  "reconcile huge_frame (u ''min_amount'') (u ''max_amount'') (u ''mean_salary'') =
     ([Some NInf, Some PInf, None], [Some (Fin 5), Some PInf, None], [Some NInf, Some PInf, None])"
  by code_simp

lemma huge_frame_result:
  "assign_columns True (Some (u ''median'')) False (u ''round'')
     ([Some NInf, Some PInf, None], [Some (Fin 5), Some PInf, None], [Some NInf, Some PInf, None]) =
     Inr [(u ''min_salary'', Float64 [Some NInf, Some PInf, None]),
          (u ''max_salary'', Float64 [Some (Fin 5), Some PInf, Some PInf]),
          (u ''mean_salary'', Float64 [Some NInf, Some PInf, None])]"
  by code_simp

theorem back_fill_defined_counterexample:
  "clean_salary_columns_int huge_frame (u ''min_amount'') (u ''max_amount'') (u ''mean_salary'')
     True (Some (u ''median'')) False (u ''round'') =
     Inr [(u ''min_salary'', Float64 [Some NInf, Some PInf, None]),
          (u ''max_salary'', Float64 [Some (Fin 5), Some PInf, Some PInf]),
          (u ''mean_salary'', Float64 [Some NInf, Some PInf, None])]
   \<and> known (fst (reconcile huge_frame (u ''min_amount'') (u ''max_amount'') (u ''mean_salary'')))
       = [NInf, PInf]
   \<and> has_na (Float64 [Some NInf, Some PInf, None])"
  by (simp add: clean_salary_columns_int_def huge_frame_columns huge_frame_result known_def
        has_na_def)

end
